theory Spec2Isabelle
  imports Main "HOL-Library.Sublist"
begin

section \<open>JavaScript values\<close>

text \<open>
  The routes handle dynamically typed values: query parameters, the fields of the JSON
  bodies the provider returns, and what the session keeps of them. \<open>jsval\<close> holds them.
  Strings are sequences of code units below 256 (\<open>char\<close>) and numbers are integers;
  fractions, infinities and code units from 256 on are outside the model. An object is
  the list of its entries in insertion order; on a repeated key the last entry counts
  (as \<open>JSON.parse\<close> has it).
\<close>

datatype jsval =
    JUndefined
  | JNull
  | JBool bool
  | JNum int
  | JStr string
  | JArr "jsval list"
  | JObj "(string \<times> jsval) list"

text \<open>What a \<open>throw\<close> carries: an \<open>Error\<close> the program makes itself with its message,
  the \<open>TypeError\<close> of a property read on \<open>null\<close> or \<open>undefined\<close>, or the failure of
  an outside call (network, body parsing, storage) with its description.\<close>

datatype error =
    Error string
  | TypeError string
  | External string

text \<open>\<open>if (v)\<close>, \<open>!v\<close>, \<open>a && b\<close>: JavaScript's truthiness.\<close>

fun truthy :: "jsval \<Rightarrow> bool" where
  "truthy JUndefined = False"
| "truthy JNull = False"
| "truthy (JBool b) = b"
| "truthy (JNum n) = (n \<noteq> 0)"
| "truthy (JStr s) = (s \<noteq> [])"
| "truthy (JArr xs) = True"
| "truthy (JObj kvs) = True"

text \<open>\<open>a === b\<close>. Two arrays or two objects are equal only when they are the same
  object; the values compared here come from different places (a freshly parsed query
  and the session), so they never are.\<close>

fun strictEq :: "jsval \<Rightarrow> jsval \<Rightarrow> bool" where
  "strictEq JUndefined JUndefined = True"
| "strictEq JNull JNull = True"
| "strictEq (JBool a) (JBool b) = (a = b)"
| "strictEq (JNum a) (JNum b) = (a = b)"
| "strictEq (JStr a) (JStr b) = (a = b)"
| "strictEq a b = False"

text \<open>\<open>v.k\<close> for the property names this program reads (none of them is a built-in
  property of strings, numbers or arrays). On \<open>null\<close> and \<open>undefined\<close> the read throws.\<close>

fun nullish :: "jsval \<Rightarrow> bool" where
  "nullish JUndefined = True"
| "nullish JNull = True"
| "nullish v = False"

fun propOf :: "jsval \<Rightarrow> string \<Rightarrow> jsval" where
  "propOf (JObj kvs) k = (case map_of (rev kvs) k of Some v \<Rightarrow> v | None \<Rightarrow> JUndefined)"
| "propOf v k = JUndefined"

definition getProp :: "jsval \<Rightarrow> string \<Rightarrow> error + jsval" where
  "getProp v k =
     (if nullish v then Inl (TypeError (''Cannot read property '' @ k))
      else Inr (propOf v k))"

section \<open>Effects\<close>

text \<open>A link record of the \<open>redditAccounts\<close> collection.\<close>

record link =
  userID :: jsval
  redditName :: jsval

text \<open>A request given to \<open>fetch\<close>.\<close>

record http_request =
  url :: string
  httpMethod :: string
  headers :: "(string \<times> string) list"
  body :: "string option"

text \<open>
  A handler's calls on its collaborators, in the order it makes them: the response
  object (\<open>writeHead\<close>, \<open>end\<close>, \<open>redirect\<close>), the collection (\<open>findOne\<close>, \<open>insertOne\<close>),
  the logger (\<open>log.error\<close> with its first argument, \<open>log.info\<close> with the value logged)
  and \<open>fetch\<close>.
\<close>

datatype effect =
    WriteHead nat
  | End string
  | Redirect string
  | FindOne link
  | InsertOne link
  | LogError string
  | LogInfo jsval
  | Fetch http_request

section \<open>The session\<close>

datatype jsdate = InvalidDate | DateMs int

record reddit_user_info =
  name :: jsval
  avatarURL :: jsval
  accountAge :: jsdate

record discord_user_info =
  id' :: jsval
  username :: jsval
  discriminator :: jsval

text \<open>The fields of \<open>request.session\<close> the two route files read and write. A field that
  was never written reads \<open>undefined\<close>: \<open>JUndefined\<close>, or \<open>None\<close> for the fields that
  hold an object when present.\<close>

record session =
  redditState :: jsval
  redditAccessToken :: jsval
  redditRefreshToken :: jsval
  redditTokenExpiresAt :: "jsdate option"
  redditUserInfo :: "reddit_user_info option"
  discordUserInfo :: "discord_user_info option"

section \<open>The linking endpoint (web/routes/verification.js)\<close>

text \<open>The collection: what \<open>findOne\<close> and \<open>insertOne\<close> answer to a document. Either
  can reject; \<open>findOne\<close> resolves to the record found or to \<open>null\<close>.\<close>

record db =
  findOne :: "link \<Rightarrow> error + link option"
  insertOne :: "link \<Rightarrow> error + unit"

text \<open>
  The response object the router hands to the handler is Node's \<open>ServerResponse\<close>.
  \<open>writeHead\<close> makes the header with the status it is given; once the header is made
  (by an earlier \<open>writeHead\<close> or by \<open>end\<close>) it throws \<open>ERR_HTTP_HEADERS_SENT\<close> and
  changes nothing. \<open>end\<close> makes the header with the current status when there is none
  yet, sends the body and finishes the response; on a finished response it changes
  nothing the caller sees.
\<close>

record response =
  statusCode :: nat
  headersSent :: bool
  finished :: bool
  payload :: string

definition freshResponse :: response where
  "freshResponse = \<lparr>statusCode = 200, headersSent = False, finished = False, payload = []\<rparr>"

definition writeHead :: "nat \<Rightarrow> response \<Rightarrow> error + response" where
  "writeHead c r =
     (if headersSent r then Inl (External ''ERR_HTTP_HEADERS_SENT'')
      else Inr (r\<lparr>statusCode := c, headersSent := True\<rparr>))"

definition endResponse :: "string \<Rightarrow> response \<Rightarrow> response" where
  "endResponse b r =
     (if finished r then r
      else r\<lparr>headersSent := True, finished := True, payload := b\<rparr>)"

text \<open>What the caller receives: the status and the body of a finished response.\<close>

definition received :: "response \<Rightarrow> (nat \<times> string) option" where
  "received r = (if finished r then Some (statusCode r, payload r) else None)"

text \<open>
  A piece of the handler acts on the calls made so far and on the response object, and
  either throws or gives a value. \<open>andThen\<close> is sequencing (a throw skips what
  follows), \<open>tryCatch\<close> is \<open>try { ... } catch (e) { ... }\<close>, \<open>await\<close> takes the outcome of
  an outside promise, \<open>emit\<close> records a call that does not touch the response, and
  \<open>callWriteHead\<close> and \<open>callEnd\<close> record a call on the response and make it.
\<close>

type_synonym 'a action = "effect list \<times> response \<Rightarrow> (error + 'a) \<times> effect list \<times> response"

definition result :: "'a \<Rightarrow> 'a action" where
  "result x w = (Inr x, w)"

definition andThen :: "'a action \<Rightarrow> ('a \<Rightarrow> 'b action) \<Rightarrow> 'b action" where
  "andThen m f w = (case m w of (Inl e, w') \<Rightarrow> (Inl e, w') | (Inr x, w') \<Rightarrow> f x w')"

definition tryCatch :: "'a action \<Rightarrow> (error \<Rightarrow> 'a action) \<Rightarrow> 'a action" where
  "tryCatch m h w = (case m w of (Inl e, w') \<Rightarrow> h e w' | (Inr x, w') \<Rightarrow> (Inr x, w'))"

definition await :: "error + 'a \<Rightarrow> 'a action" where
  "await outcome w = (outcome, w)"

definition emit :: "effect \<Rightarrow> unit action" where
  "emit c w = (Inr (), fst w @ [c], snd w)"

definition callWriteHead :: "nat \<Rightarrow> unit action" where
  "callWriteHead c w =
     (case writeHead c (snd w) of
        Inl e \<Rightarrow> (Inl e, fst w @ [WriteHead c], snd w)
      | Inr r \<Rightarrow> (Inr (), fst w @ [WriteHead c], r))"

definition callEnd :: "string \<Rightarrow> unit action" where
  "callEnd b w = (Inr (), fst w @ [End b], endResponse b (snd w))"

text \<open>
  The \<open>try\<close> block of the POST handler. Its value is \<open>True\<close> when the handler returned
  from inside the block and \<open>False\<close> when the block ran to its end.
\<close>

definition linkTry :: "db \<Rightarrow> reddit_user_info \<Rightarrow> discord_user_info \<Rightarrow> bool action" where
  "linkTry d reddit discord =
     (let q = \<lparr>userID = id' discord, redditName = name reddit\<rparr> in
      andThen (emit (FindOne q)) (\<lambda>_.
      andThen (await (findOne d q)) (\<lambda>existingLink.
        case existingLink of
          Some found \<Rightarrow>
            andThen (callWriteHead 201) (\<lambda>_.
            andThen (callEnd []) (\<lambda>_.
            result True))
        | None \<Rightarrow>
            andThen (emit (InsertOne q)) (\<lambda>_.
            andThen (await (insertOne d q)) (\<lambda>ack.
            result False)))))"

text \<open>
  \<open>.post('/')\<close>. The \<open>catch\<close> block logs, writes the 500 and ends the response; it has
  no \<open>return\<close>, so the handler goes on to the statements after the \<open>try\<close>
  (\<open>writeHead(201)\<close>, \<open>end()\<close>), as it does when the block ran to its end. A throw that
  leaves the handler rejects the promise the \<open>async\<close> function returns.
\<close>

definition postHandler :: "db \<Rightarrow> session \<Rightarrow> unit action" where
  "postHandler d s =
     (case redditUserInfo s of
        None \<Rightarrow>
          andThen (callWriteHead 401) (\<lambda>_.
          callEnd ''Not logged in with Reddit'')
      | Some reddit \<Rightarrow>
          (case discordUserInfo s of
             None \<Rightarrow>
               andThen (callWriteHead 401) (\<lambda>_.
               callEnd ''Not logged in with Discord'')
           | Some discord \<Rightarrow>
               andThen
                 (tryCatch (linkTry d reddit discord)
                    (\<lambda>error.
                       andThen (emit (LogError ''Database error while processing reddit-discord link:'')) (\<lambda>_.
                       andThen (callWriteHead 500) (\<lambda>_.
                       andThen (callEnd ''An unexpected error occured. Get in touch with a bot developer.'') (\<lambda>_.
                       result False)))))
                 (\<lambda>returned.
                    if returned then result ()
                    else
                      andThen (callWriteHead 201) (\<lambda>_.
                      callEnd []))))"

text \<open>A POST request handled on a fresh response: how the handler finished, the calls
  it made in order (a call that threw is the last of them), and the response object
  it left.\<close>

definition postVerifyRun :: "db \<Rightarrow> session \<Rightarrow> (error + unit) \<times> effect list \<times> response" where
  "postVerifyRun d s = postHandler d s ([], freshResponse)"

definition postVerify :: "db \<Rightarrow> session \<Rightarrow> effect list" where
  "postVerify d s = fst (snd (postVerifyRun d s))"

definition postVerifyResponse :: "db \<Rightarrow> session \<Rightarrow> response" where
  "postVerifyResponse d s = snd (snd (postVerifyRun d s))"

definition postVerifyOutcome :: "db \<Rightarrow> session \<Rightarrow> error + unit" where
  "postVerifyOutcome d s = fst (postVerifyRun d s)"

text \<open>The calls a handler made on the response object, and those on the collection.\<close>

fun isResponse :: "effect \<Rightarrow> bool" where
  "isResponse (WriteHead c) = True"
| "isResponse (End b) = True"
| "isResponse (Redirect l) = True"
| "isResponse e = False"


definition responseOf :: "effect list \<Rightarrow> effect list" where
  "responseOf t = filter isResponse t"


section \<open>Strings and numbers\<close>

text \<open>Decimal digits of a natural number and of an integer, as \<open>String(n)\<close> and a
  template literal print an integer.\<close>

definition digitChar :: "nat \<Rightarrow> char" where
  "digitChar n = ''0123456789'' ! (n mod 10)"

fun showNat :: "nat \<Rightarrow> string" where
  "showNat n = (if n < 10 then [digitChar n] else showNat (n div 10) @ [digitChar n])"

declare showNat.simps [simp del]

definition showInt :: "int \<Rightarrow> string" where
  "showInt i = (if i < 0 then CHR ''-'' # showNat (nat (- i)) else showNat (nat i))"

text \<open>\<open>String(v)\<close>, the conversion a template literal and \<open>encodeURIComponent\<close> apply to
  their argument. An array prints its elements separated by commas, \<open>null\<close> and
  \<open>undefined\<close> elements as nothing; a plain object prints \<open>[object Object]\<close>.\<close>

fun toString :: "jsval \<Rightarrow> string"
  and elemString :: "jsval \<Rightarrow> string"
  and joinElems :: "jsval list \<Rightarrow> string" where
  "toString JUndefined = ''undefined''"
| "toString JNull = ''null''"
| "toString (JBool b) = (if b then ''true'' else ''false'')"
| "toString (JNum n) = showInt n"
| "toString (JStr s) = s"
| "toString (JArr xs) = joinElems xs"
| "toString (JObj kvs) = ''[object Object]''"
| "elemString JUndefined = []"
| "elemString JNull = []"
| "elemString (JBool b) = toString (JBool b)"
| "elemString (JNum n) = toString (JNum n)"
| "elemString (JStr s) = toString (JStr s)"
| "elemString (JArr xs) = toString (JArr xs)"
| "elemString (JObj kvs) = toString (JObj kvs)"
| "joinElems [] = []"
| "joinElems [x] = elemString x"
| "joinElems (x # y # ys) = elemString x @ '','' @ joinElems (y # ys)"

text \<open>A JavaScript number of this model: an integer or \<open>NaN\<close>.\<close>

datatype jsnum = NaN | Num int

fun jsAdd :: "jsnum \<Rightarrow> jsnum \<Rightarrow> jsnum" where
  "jsAdd (Num a) (Num b) = Num (a + b)"
| "jsAdd a b = NaN"

fun jsMul :: "jsnum \<Rightarrow> jsnum \<Rightarrow> jsnum" where
  "jsMul (Num a) (Num b) = Num (a * b)"
| "jsMul a b = NaN"

text \<open>\<open>new Date(t)\<close>: a time value is kept when it lies within 8.64e15 milliseconds of
  the epoch; otherwise, and for \<open>NaN\<close>, the date is invalid.\<close>

fun newDate :: "jsnum \<Rightarrow> jsdate" where
  "newDate NaN = InvalidDate"
| "newDate (Num t) = (if \<bar>t\<bar> \<le> 8640000000000000 then DateMs t else InvalidDate)"

section \<open>URI encoding\<close>

text \<open>\<open>encodeURIComponent\<close>: letters, digits and \<open>- _ . ! ~ * ' ( )\<close> stay; every other
  code unit is written as the percent-escaped bytes of its UTF-8 encoding, one byte
  below 128 and two bytes from 128 to 255.\<close>

definition hexDigit :: "nat \<Rightarrow> char" where
  "hexDigit n = ''0123456789ABCDEF'' ! (n mod 16)"

definition percent :: "nat \<Rightarrow> string" where
  "percent b = [CHR ''%'', hexDigit (b div 16), hexDigit b]"

definition uriUnreserved :: "char \<Rightarrow> bool" where
  "uriUnreserved c =
     (let n = (of_char c :: nat) in
      (65 \<le> n \<and> n \<le> 90) \<or> (97 \<le> n \<and> n \<le> 122) \<or> (48 \<le> n \<and> n \<le> 57)
      \<or> n \<in> {45, 95, 46, 33, 126, 42, 39, 40, 41})"

definition encodeChar :: "char \<Rightarrow> string" where
  "encodeChar c =
     (let n = (of_char c :: nat) in
      if uriUnreserved c then [c]
      else if n < 128 then percent n
      else percent (192 + n div 64) @ percent (128 + n mod 64))"

definition encodeURIComponent :: "string \<Rightarrow> string" where
  "encodeURIComponent s = concat (map encodeChar s)"

text \<open>The value of a hexadecimal digit, and the first code unit of an encoded text
  with the number of characters that encode it. They serve to show that the encoding
  loses nothing.\<close>

definition hexVal :: "char \<Rightarrow> nat" where
  "hexVal c = (let n = (of_char c :: nat) in if n \<le> 57 then n - 48 else n - 55)"

definition decodeHead :: "string \<Rightarrow> char \<times> nat" where
  "decodeHead xs =
     (if hd xs \<noteq> CHR ''%'' then (hd xs, 1)
      else
        (let b1 = 16 * hexVal (xs ! 1) + hexVal (xs ! 2) in
         if b1 < 128 then (char_of b1, 3)
         else (char_of ((b1 - 192) * 64 + (16 * hexVal (xs ! 4) + hexVal (xs ! 5) - 128)), 6)))"

section \<open>The OAuth client (web/routes/redditAuth.js)\<close>

text \<open>The values of \<open>config\<close> the file reads.\<close>

record config =
  web_host :: string
  reddit_clientID :: string
  reddit_clientSecret :: string
  reddit_redirectURI :: string

definition redditRedirectURI :: "config \<Rightarrow> string" where
  "redditRedirectURI cfg = web_host cfg @ ''/auth/reddit/callback''"

definition redditAuthURIBase :: "config \<Rightarrow> string" where
  "redditAuthURIBase cfg =
     ''https://old.reddit.com/api/v1/authorize''
     @ ''?client_id='' @ reddit_clientID cfg
     @ ''&response_type=code''
     @ ''&redirect_uri='' @ encodeURIComponent (redditRedirectURI cfg)
     @ ''&scope=identity''
     @ ''&duration=permanent''"

definition authURI :: "config \<Rightarrow> string \<Rightarrow> string" where
  "authURI cfg state = redditAuthURIBase cfg @ ''&state='' @ encodeURIComponent state"

text \<open>\<open>formData\<close>, on the entries of its argument in order.\<close>

fun joinWith :: "string \<Rightarrow> string list \<Rightarrow> string" where
  "joinWith sep [] = []"
| "joinWith sep [x] = x"
| "joinWith sep (x # y # ys) = x @ sep @ joinWith sep (y # ys)"

definition formData :: "(string \<times> jsval) list \<Rightarrow> string" where
  "formData content =
     joinWith ''&''
       (map (\<lambda>(k, v). encodeURIComponent k @ ''='' @ encodeURIComponent (toString v)) content)"

text \<open>
  What the handlers take from outside: the answer of \<open>fetch\<close> to a request (it can
  reject), the clock \<open>Date.now()\<close> in milliseconds, the conversion of a string to a
  number that \<open>*\<close> applies, and the base64 text of \<open>Buffer.from(s)\<close>. A response has
  its status and what \<open>response.json()\<close> resolves to (it rejects on a body that is not
  JSON).
\<close>

record http_response =
  status :: nat
  json :: "error + jsval"

record env =
  fetch :: "http_request \<Rightarrow> error + http_response"
  now :: int
  stringToNumber :: "string \<Rightarrow> jsnum"
  base64 :: "string \<Rightarrow> string"

text \<open>The operand conversion of \<open>v * 1000\<close>.\<close>

fun toNumber :: "env \<Rightarrow> jsval \<Rightarrow> jsnum" where
  "toNumber e JUndefined = NaN"
| "toNumber e JNull = Num 0"
| "toNumber e (JBool b) = Num (if b then 1 else 0)"
| "toNumber e (JNum n) = Num n"
| "toNumber e (JStr s) = stringToNumber e s"
| "toNumber e (JArr xs) = stringToNumber e (toString (JArr xs))"
| "toNumber e (JObj kvs) = stringToNumber e (toString (JObj kvs))"

record tokenset =
  accessToken :: jsval
  refreshToken :: jsval
  tokenType :: jsval
  scope :: jsval
  expiresIn :: jsval

definition tokenRequest :: "config \<Rightarrow> env \<Rightarrow> jsval \<Rightarrow> http_request" where
  "tokenRequest cfg e code =
     \<lparr>url = ''https://www.reddit.com/api/v1/access_token'',
      httpMethod = ''POST'',
      headers =
        [(''Content-Type'', ''application/x-www-form-urlencoded''),
         (''Authorization'',
          ''Basic '' @ base64 e (reddit_clientID cfg @ '':'' @ reddit_clientSecret cfg))],
      body = Some (formData
        [(''grant_type'', JStr ''authorization_code''),
         (''redirect_uri'', JStr (reddit_redirectURI cfg)),
         (''code'', code)])\<rparr>"

text \<open>\<open>fetchRedditTokens\<close>: the calls it makes and what it returns or throws.\<close>

definition fetchRedditTokens :: "config \<Rightarrow> env \<Rightarrow> jsval \<Rightarrow> effect list \<times> (error + tokenset)" where
  "fetchRedditTokens cfg e code =
     (let req = tokenRequest cfg e code in
      ([Fetch req],
       case fetch e req of
         Inl rejected \<Rightarrow> Inl rejected
       | Inr response \<Rightarrow>
           if status response \<noteq> 200 then
             Inl (Error (''Reddit gave non-200 response status when requesting tokens: ''
                         @ showNat (status response)))
           else
             (case json response of
                Inl rejected \<Rightarrow> Inl rejected
              | Inr data \<Rightarrow>
                  (case getProp data ''error'' of
                     Inl typeError \<Rightarrow> Inl typeError
                   | Inr err \<Rightarrow>
                       if truthy err then
                         Inl (Error (''Reddit gave an error when requesting tokens: ''
                                     @ toString err))
                       else
                         Inr \<lparr>accessToken = propOf data ''access_token'',
                              refreshToken = propOf data ''refresh_token'',
                              tokenType = propOf data ''token_type'',
                              scope = propOf data ''scope'',
                              expiresIn = propOf data ''expires_in''\<rparr>))))"

definition userInfoRequest :: "jsval \<Rightarrow> http_request" where
  "userInfoRequest token =
     \<lparr>url = ''https://oauth.reddit.com/api/v1/me'',
      httpMethod = ''GET'',
      headers = [(''Authorization'', ''bearer '' @ toString token)],
      body = None\<rparr>"

text \<open>\<open>fetchRedditUserInfo\<close>. \<open>a && b\<close> is \<open>b\<close> when \<open>a\<close> is truthy and \<open>a\<close> otherwise.\<close>

definition fetchRedditUserInfo :: "env \<Rightarrow> jsval \<Rightarrow> effect list \<times> (error + reddit_user_info)" where
  "fetchRedditUserInfo e token =
     (let req = userInfoRequest token in
      ([LogInfo token, Fetch req],
       case fetch e req of
         Inl rejected \<Rightarrow> Inl rejected
       | Inr response \<Rightarrow>
           if status response \<noteq> 200 then
             Inl (Error (''Reddit gave non-200 status when fetching user info: ''
                         @ showNat (status response)))
           else
             (case json response of
                Inl rejected \<Rightarrow> Inl rejected
              | Inr data \<Rightarrow>
                  (case getProp data ''name'' of
                     Inl typeError \<Rightarrow> Inl typeError
                   | Inr nm \<Rightarrow>
                       Inr \<lparr>name = nm,
                            avatarURL =
                              (let subreddit = propOf data ''subreddit'' in
                               if truthy subreddit then propOf subreddit ''icon_img''
                               else subreddit),
                            accountAge =
                              newDate (jsMul (toNumber e (propOf data ''created_utc''))
                                             (Num 1000))\<rparr>))))"

text \<open>\<open>.get('/')\<close>, the entry point; \<open>random\<close> is the text of \<open>Math.random()\<close>.\<close>

definition getRoot :: "config \<Rightarrow> string \<Rightarrow> session \<Rightarrow> session \<times> effect list" where
  "getRoot cfg random s =
     (let state = random in (s\<lparr>redditState := JStr state\<rparr>, [Redirect (authURI cfg state)]))"

text \<open>The query of the callback request: \<open>const {error, state, code} = request.query\<close>.
  A parameter that is absent is \<open>undefined\<close>, one given once is a string, one given
  several times an array of strings.\<close>

record query =
  error :: jsval
  state :: jsval
  code :: jsval

text \<open>\<open>.get('/callback')\<close>: the session it leaves and the calls it makes.\<close>

definition callback :: "config \<Rightarrow> env \<Rightarrow> query \<Rightarrow> session \<Rightarrow> session \<times> effect list" where
  "callback cfg e q s =
     (if truthy (error q) then
        (s, [LogError ''Reddit gave error after auth page:'', End ''uh-oh''])
      else if \<not> strictEq (state q) (redditState s) then
        (s, [LogError ''Reddit gave incorrect state after auth page: '', End ''uh-oh''])
      else
        (case fetchRedditTokens cfg e (code q) of
           (t1, Inl tokenError) \<Rightarrow>
             (s, [LogInfo (code q)] @ t1 @
                 [LogError ''Error requesting Reddit access token:'',
                  End ''Error requesting Reddit authorization. Please try again. Contact a developer if the error persists.''])
         | (t1, Inr tokens) \<Rightarrow>
             (let s1 = s\<lparr>redditAccessToken := accessToken tokens,
                          redditRefreshToken := refreshToken tokens,
                          redditTokenExpiresAt :=
                            Some (newDate (jsAdd (Num (now e))
                                                 (jsMul (toNumber e (expiresIn tokens)) (Num 1000))))\<rparr>
              in case fetchRedditUserInfo e (accessToken tokens) of
                   (t2, Inl userInfoError) \<Rightarrow>
                     (s1, [LogInfo (code q)] @ t1 @ t2 @
                          [LogError ''Error fetching Reddit user info:'',
                           End ''Error fetching your account details. Please try again. Contact a developer if the error persists.''])
                 | (t2, Inr info) \<Rightarrow>
                     (s1\<lparr>redditUserInfo := Some info\<rparr>,
                      [LogInfo (code q)] @ t1 @ t2 @ [Redirect ''/'']))))"

section \<open>Sample collaborators\<close>

text \<open>Concrete configurations, sessions and providers on which the properties below
  are evaluated.\<close>

definition sampleConfig :: config where
  "sampleConfig =
     \<lparr>web_host = ''https://bot.example'',
      reddit_clientID = ''abc'',
      reddit_clientSecret = ''xyz'',
      reddit_redirectURI = ''https://bot.example/auth/reddit/callback''\<rparr>"

text \<open>A provider that gives one answer at the token endpoint and one at every other
  address, with the clock at a fixed time.\<close>

definition providerEnv :: "(error + http_response) \<Rightarrow> (error + http_response) \<Rightarrow> env" where
  "providerEnv tokenAnswer profileAnswer =
     \<lparr>fetch = (\<lambda>req. if url req = ''https://www.reddit.com/api/v1/access_token''
                      then tokenAnswer else profileAnswer),
      now = 1600000000000,
      stringToNumber = (\<lambda>s. NaN),
      base64 = (\<lambda>s. s)\<rparr>"

definition emptySession :: session where
  "emptySession =
     \<lparr>redditState = JUndefined,
      redditAccessToken = JUndefined,
      redditRefreshToken = JUndefined,
      redditTokenExpiresAt = None,
      redditUserInfo = None,
      discordUserInfo = None\<rparr>"

definition alice :: reddit_user_info where
  "alice = \<lparr>name = JStr ''alice'', avatarURL = JUndefined, accountAge = DateMs 0\<rparr>"

definition user42 :: discord_user_info where
  "user42 = \<lparr>id' = JStr ''42'', username = JStr ''al'', discriminator = JStr ''0001''\<rparr>"

definition bothSession :: session where
  "bothSession = emptySession\<lparr>redditUserInfo := Some alice, discordUserInfo := Some user42\<rparr>"



definition downDb :: db where
  "downDb = \<lparr>findOne = (\<lambda>q. Inl (External ''connection lost'')),
             insertOne = (\<lambda>r. Inl (External ''connection lost''))\<rparr>"

definition readOnlyDb :: db where
  "readOnlyDb = \<lparr>findOne = (\<lambda>q. Inr None), insertOne = (\<lambda>r. Inl (External ''not writable''))\<rparr>"

text \<open>Answers of the provider: a token answer as Reddit documents it, a profile answer,
  a profile endpoint that is down, a token answer whose \<open>error\<close> field is the empty
  string, a token answer whose body is not JSON, and a token answer with no fields.\<close>

definition tokensOk :: "error + http_response" where
  "tokensOk =
     Inr \<lparr>status = 200,
          json = Inr (JObj [(''access_token'', JStr ''tok''),
                            (''token_type'', JStr ''bearer''),
                            (''expires_in'', JNum 3600),
                            (''scope'', JStr ''identity''),
                            (''refresh_token'', JStr ''ref'')])\<rparr>"

definition profileOk :: "error + http_response" where
  "profileOk =
     Inr \<lparr>status = 200,
          json = Inr (JObj [(''name'', JStr ''alice''),
                            (''created_utc'', JNum 1500000000),
                            (''subreddit'', JObj [(''icon_img'', JStr ''i.png'')])])\<rparr>"

definition profileDown :: "error + http_response" where
  "profileDown = Inr \<lparr>status = 503, json = Inl (External ''body is not JSON'')\<rparr>"

definition tokensEmptyError :: "error + http_response" where
  "tokensEmptyError =
     Inr \<lparr>status = 200,
          json = Inr (JObj [(''error'', JStr []),
                            (''access_token'', JStr ''tok''),
                            (''expires_in'', JNum 3600)])\<rparr>"

definition tokensNotJson :: "error + http_response" where
  "tokensNotJson = Inr \<lparr>status = 200, json = Inl (External ''body is not JSON'')\<rparr>"

definition sampleQuery :: query where
  "sampleQuery = \<lparr>error = JUndefined, state = JStr ''0.25'', code = JStr ''c0de''\<rparr>"

definition redirectedSession :: session where
  "redirectedSession = emptySession\<lparr>redditState := JStr ''0.25''\<rparr>"

text \<open>Whether a JSON body is an object with an entry for a key.\<close>

fun hasField :: "jsval \<Rightarrow> string \<Rightarrow> bool" where
  "hasField (JObj kvs) k = (k \<in> fst ` set kvs)"
| "hasField v k = False"

section \<open>Properties of the linking endpoint\<close>

lemmas handler_defs =
  postVerifyRun_def postHandler_def linkTry_def andThen_def tryCatch_def await_def emit_def
  callWriteHead_def callEnd_def result_def writeHead_def endResponse_def freshResponse_def
  Let_def





text \<open>On a storage fault the 500 is sent; the \<open>writeHead(201)\<close> that follows the
  \<open>catch\<close> block throws, \<open>end()\<close> is not reached and the handler's promise rejects.\<close>

lemma postVerifyRun_lookup_fault:
  "redditUserInfo s = Some r \<Longrightarrow> discordUserInfo s = Some dc \<Longrightarrow>
   findOne d \<lparr>userID = id' dc, redditName = name r\<rparr> = Inl e \<Longrightarrow>
   postVerifyRun d s =
     (Inl (External ''ERR_HTTP_HEADERS_SENT''),
      [FindOne \<lparr>userID = id' dc, redditName = name r\<rparr>,
       LogError ''Database error while processing reddit-discord link:'',
       WriteHead 500,
       End ''An unexpected error occured. Get in touch with a bot developer.'',
       WriteHead 201],
      \<lparr>statusCode = 500, headersSent = True, finished = True,
       payload = ''An unexpected error occured. Get in touch with a bot developer.''\<rparr>)"
  by (simp add: handler_defs)

lemma postVerifyRun_insert_fault:
  "redditUserInfo s = Some r \<Longrightarrow> discordUserInfo s = Some dc \<Longrightarrow>
   findOne d \<lparr>userID = id' dc, redditName = name r\<rparr> = Inr None \<Longrightarrow>
   insertOne d \<lparr>userID = id' dc, redditName = name r\<rparr> = Inl e \<Longrightarrow>
   postVerifyRun d s =
     (Inl (External ''ERR_HTTP_HEADERS_SENT''),
      [FindOne \<lparr>userID = id' dc, redditName = name r\<rparr>,
       InsertOne \<lparr>userID = id' dc, redditName = name r\<rparr>,
       LogError ''Database error while processing reddit-discord link:'',
       WriteHead 500,
       End ''An unexpected error occured. Get in touch with a bot developer.'',
       WriteHead 201],
      \<lparr>statusCode = 500, headersSent = True, finished = True,
       payload = ''An unexpected error occured. Get in touch with a bot developer.''\<rparr>)"
  by (simp add: handler_defs)








lemma responseOf_simps:
  "responseOf [] = []"
  "responseOf (FindOne q # t) = responseOf t"
  "responseOf (InsertOne q # t) = responseOf t"
  "responseOf (WriteHead n # t) = WriteHead n # responseOf t"
  "responseOf (End b # t) = End b # responseOf t"
  "responseOf (Redirect l # t) = Redirect l # responseOf t"
  "responseOf (LogError m # t) = responseOf t"
  "responseOf (LogInfo v # t) = responseOf t"
  "responseOf (Fetch r # t) = responseOf t"
  by (simp_all add: responseOf_def)







text \<open>
  Claim C1. With both identities in the session, when the lookup rejects, or finds no
  record and the insert rejects, the response the caller receives has status 500 (so
  not 201) and the fixed message as its body, whatever the fault was. The only \<open>end\<close>
  the handler calls is the one that sends the 500.
\<close>

theorem postVerify_storage_fault_500:
  assumes "redditUserInfo s = Some reddit" and "discordUserInfo s = Some discord"
    and "q = \<lparr>userID = id' discord, redditName = name reddit\<rparr>"
    and "findOne d q = Inl e \<or> (findOne d q = Inr None \<and> insertOne d q = Inl e)"
  shows "received (postVerifyResponse d s) =
           Some (500, ''An unexpected error occured. Get in touch with a bot developer.'')
       \<and> statusCode (postVerifyResponse d s) = 500
       \<and> statusCode (postVerifyResponse d s) \<noteq> 201
       \<and> filter (\<lambda>c. c = WriteHead 500 \<or> (\<exists>b. c = End b)) (postVerify d s) =
           [WriteHead 500, End ''An unexpected error occured. Get in touch with a bot developer.'']"
proof -
  from assms(4) consider (lookup) "findOne d q = Inl e"
    | (insert) "findOne d q = Inr None" "insertOne d q = Inl e"
    by blast
  then show ?thesis
  proof cases
    case lookup
    with assms(1-3) show ?thesis
      by (simp add: postVerify_def postVerifyResponse_def received_def
          postVerifyRun_lookup_fault)
  next
    case insert
    with assms(1-3) show ?thesis
      by (simp add: postVerify_def postVerifyResponse_def received_def
          postVerifyRun_insert_fault)
  qed
qed

theorem postVerify_storage_fault_500_witness:
  "redditUserInfo bothSession = Some alice \<and> discordUserInfo bothSession = Some user42
   \<and> findOne downDb \<lparr>userID = JStr ''42'', redditName = JStr ''alice''\<rparr>
       = Inl (External ''connection lost'')
   \<and> received (postVerifyResponse downDb bothSession) =
       Some (500, ''An unexpected error occured. Get in touch with a bot developer.'')
   \<and> findOne readOnlyDb \<lparr>userID = JStr ''42'', redditName = JStr ''alice''\<rparr> = Inr None
   \<and> insertOne readOnlyDb \<lparr>userID = JStr ''42'', redditName = JStr ''alice''\<rparr>
       = Inl (External ''not writable'')
   \<and> received (postVerifyResponse readOnlyDb bothSession) =
       Some (500, ''An unexpected error occured. Get in touch with a bot developer.'')"
proof -
  have ids: "redditUserInfo bothSession = Some alice" "discordUserInfo bothSession = Some user42"
    by (simp_all add: bothSession_def emptySession_def)
  have q: "\<lparr>userID = JStr ''42'', redditName = JStr ''alice''\<rparr>
      = \<lparr>userID = id' user42, redditName = name alice\<rparr>"
    by (simp add: alice_def user42_def)
  have down: "findOne downDb \<lparr>userID = JStr ''42'', redditName = JStr ''alice''\<rparr>
       = Inl (External ''connection lost'')"
    by (simp add: downDb_def)
  have ro: "findOne readOnlyDb \<lparr>userID = JStr ''42'', redditName = JStr ''alice''\<rparr> = Inr None"
    "insertOne readOnlyDb \<lparr>userID = JStr ''42'', redditName = JStr ''alice''\<rparr>
       = Inl (External ''not writable'')"
    by (simp_all add: readOnlyDb_def)
  from postVerify_storage_fault_500 [OF ids q, of downDb "External ''connection lost''"] down
  have r1: "received (postVerifyResponse downDb bothSession) =
       Some (500, ''An unexpected error occured. Get in touch with a bot developer.'')"
    by simp
  from postVerify_storage_fault_500 [OF ids q, of readOnlyDb "External ''not writable''"] ro
  have r2: "received (postVerifyResponse readOnlyDb bothSession) =
       Some (500, ''An unexpected error occured. Get in touch with a bot developer.'')"
    by simp
  from ids down ro r1 r2 show ?thesis by simp
qed

section \<open>Properties of the callback\<close>

lemma fetchRedditTokens_calls:
  "fst (fetchRedditTokens cfg e c) = [Fetch (tokenRequest cfg e c)]"
  by (simp add: fetchRedditTokens_def Let_def)

lemma fetchRedditUserInfo_calls:
  "fst (fetchRedditUserInfo e t) = [LogInfo t, Fetch (userInfoRequest t)]"
  by (simp add: fetchRedditUserInfo_def Let_def)

lemma callback_error:
  "truthy (error q) \<Longrightarrow>
   callback cfg e q s = (s, [LogError ''Reddit gave error after auth page:'', End ''uh-oh''])"
  by (simp add: callback_def)

lemma callback_mismatch:
  "\<not> truthy (error q) \<Longrightarrow> \<not> strictEq (state q) (redditState s) \<Longrightarrow>
   callback cfg e q s =
     (s, [LogError ''Reddit gave incorrect state after auth page: '', End ''uh-oh''])"
  by (simp add: callback_def)

lemma callback_token_failure:
  assumes "\<not> truthy (error q)" and "strictEq (state q) (redditState s)"
    and "snd (fetchRedditTokens cfg e (code q)) = Inl tokenError"
  shows "callback cfg e q s =
     (s, [LogInfo (code q), Fetch (tokenRequest cfg e (code q)),
          LogError ''Error requesting Reddit access token:'',
          End ''Error requesting Reddit authorization. Please try again. Contact a developer if the error persists.''])"
proof -
  have "fetchRedditTokens cfg e (code q) = ([Fetch (tokenRequest cfg e (code q))], Inl tokenError)"
    using assms(3) fetchRedditTokens_calls [of cfg e "code q"] by (simp add: prod_eq_iff)
  with assms(1,2) show ?thesis by (simp add: callback_def)
qed

lemma callback_profile_failed:
  assumes "\<not> truthy (error q)" and "strictEq (state q) (redditState s)"
    and "snd (fetchRedditTokens cfg e (code q)) = Inr tokens"
    and "snd (fetchRedditUserInfo e (accessToken tokens)) = Inl userInfoError"
  shows "callback cfg e q s =
     (s\<lparr>redditAccessToken := accessToken tokens,
        redditRefreshToken := refreshToken tokens,
        redditTokenExpiresAt :=
          Some (newDate (jsAdd (Num (now e)) (jsMul (toNumber e (expiresIn tokens)) (Num 1000))))\<rparr>,
      [LogInfo (code q), Fetch (tokenRequest cfg e (code q)),
       LogInfo (accessToken tokens), Fetch (userInfoRequest (accessToken tokens)),
       LogError ''Error fetching Reddit user info:'',
       End ''Error fetching your account details. Please try again. Contact a developer if the error persists.''])"
proof -
  have t: "fetchRedditTokens cfg e (code q) = ([Fetch (tokenRequest cfg e (code q))], Inr tokens)"
    using assms(3) fetchRedditTokens_calls [of cfg e "code q"] by (simp add: prod_eq_iff)
  have u: "fetchRedditUserInfo e (accessToken tokens) =
      ([LogInfo (accessToken tokens), Fetch (userInfoRequest (accessToken tokens))], Inl userInfoError)"
    using assms(4) fetchRedditUserInfo_calls [of e "accessToken tokens"] by (simp add: prod_eq_iff)
  from assms(1,2) t u show ?thesis by (simp add: callback_def Let_def)
qed

lemma callback_success:
  assumes "\<not> truthy (error q)" and "strictEq (state q) (redditState s)"
    and "snd (fetchRedditTokens cfg e (code q)) = Inr tokens"
    and "snd (fetchRedditUserInfo e (accessToken tokens)) = Inr info"
  shows "callback cfg e q s =
     (s\<lparr>redditAccessToken := accessToken tokens,
        redditRefreshToken := refreshToken tokens,
        redditTokenExpiresAt :=
          Some (newDate (jsAdd (Num (now e)) (jsMul (toNumber e (expiresIn tokens)) (Num 1000)))),
        redditUserInfo := Some info\<rparr>,
      [LogInfo (code q), Fetch (tokenRequest cfg e (code q)),
       LogInfo (accessToken tokens), Fetch (userInfoRequest (accessToken tokens)),
       Redirect ''/''])"
proof -
  have t: "fetchRedditTokens cfg e (code q) = ([Fetch (tokenRequest cfg e (code q))], Inr tokens)"
    using assms(3) fetchRedditTokens_calls [of cfg e "code q"] by (simp add: prod_eq_iff)
  have u: "fetchRedditUserInfo e (accessToken tokens) =
      ([LogInfo (accessToken tokens), Fetch (userInfoRequest (accessToken tokens))], Inr info)"
    using assms(4) fetchRedditUserInfo_calls [of e "accessToken tokens"] by (simp add: prod_eq_iff)
  from assms(1,2) t u show ?thesis by (simp add: callback_def Let_def)
qed


lemma fetchRedditTokens_result:
  "snd (fetchRedditTokens cfg e c) =
     (case fetch e (tokenRequest cfg e c) of
        Inl rejected \<Rightarrow> Inl rejected
      | Inr response \<Rightarrow>
          if status response \<noteq> 200 then
            Inl (Error (''Reddit gave non-200 response status when requesting tokens: ''
                        @ showNat (status response)))
          else
            (case json response of
               Inl rejected \<Rightarrow> Inl rejected
             | Inr data \<Rightarrow>
                 if nullish data then Inl (TypeError ''Cannot read property error'')
                 else if truthy (propOf data ''error'') then
                   Inl (Error (''Reddit gave an error when requesting tokens: ''
                               @ toString (propOf data ''error'')))
                 else
                   Inr \<lparr>accessToken = propOf data ''access_token'',
                        refreshToken = propOf data ''refresh_token'',
                        tokenType = propOf data ''token_type'',
                        scope = propOf data ''scope'',
                        expiresIn = propOf data ''expires_in''\<rparr>))"
  by (simp add: fetchRedditTokens_def Let_def getProp_def split: sum.splits)

lemma providerEnv_token:
  "fetch (providerEnv a b) (tokenRequest cfg e c) = a"
  by (simp add: providerEnv_def tokenRequest_def)

lemma providerEnv_profile:
  "fetch (providerEnv a b) (userInfoRequest t) = b"
  by (simp add: providerEnv_def userInfoRequest_def)

lemma sample_tokens:
  "snd (fetchRedditTokens cfg (providerEnv tokensOk b) c) =
     Inr \<lparr>accessToken = JStr ''tok'', refreshToken = JStr ''ref'', tokenType = JStr ''bearer'',
          scope = JStr ''identity'', expiresIn = JNum 3600\<rparr>"
  by (simp add: fetchRedditTokens_result providerEnv_token) (simp add: tokensOk_def)

lemma sample_profile_down:
  "snd (fetchRedditUserInfo (providerEnv a profileDown) t) =
     Inl (Error ''Reddit gave non-200 status when fetching user info: 503'')"
  by (simp add: fetchRedditUserInfo_def Let_def providerEnv_profile)
     (simp add: profileDown_def showNat.simps digitChar_def)

text \<open>
  Claim C3. A callback whose \<open>error\<close> parameter is truthy (a non-empty string), or
  whose \<open>state\<close> parameter is not strictly equal to the state kept in the session, makes
  no \<open>fetch\<close> at all, so the token exchange is never called; the session is left as it
  was, and the only call on the response is \<open>end('uh-oh')\<close>: no redirect.
\<close>

theorem callback_rejected_before_exchange:
  assumes "truthy (error q) \<or> \<not> strictEq (state q) (redditState s)"
  shows "fst (callback cfg e q s) = s
       \<and> responseOf (snd (callback cfg e q s)) = [End ''uh-oh'']
       \<and> (\<forall>r. Fetch r \<notin> set (snd (callback cfg e q s)))"
proof (cases "truthy (error q)")
  case True
  then show ?thesis by (simp add: callback_error responseOf_simps)
next
  case False
  with assms have "\<not> strictEq (state q) (redditState s)" by simp
  with False show ?thesis by (simp add: callback_mismatch responseOf_simps)
qed

theorem callback_rejected_before_exchange_witness:
  "truthy (error (sampleQuery\<lparr>error := JStr ''access_denied''\<rparr>))
   \<and> fst (callback sampleConfig (providerEnv tokensOk profileOk)
            (sampleQuery\<lparr>error := JStr ''access_denied''\<rparr>) redirectedSession) = redirectedSession
   \<and> responseOf (snd (callback sampleConfig (providerEnv tokensOk profileOk)
            (sampleQuery\<lparr>error := JStr ''access_denied''\<rparr>) redirectedSession)) = [End ''uh-oh'']
   \<and> \<not> strictEq (state (sampleQuery\<lparr>state := JStr ''0.75''\<rparr>)) (redditState redirectedSession)
   \<and> fst (callback sampleConfig (providerEnv tokensOk profileOk)
            (sampleQuery\<lparr>state := JStr ''0.75''\<rparr>) redirectedSession) = redirectedSession
   \<and> responseOf (snd (callback sampleConfig (providerEnv tokensOk profileOk)
            (sampleQuery\<lparr>state := JStr ''0.75''\<rparr>) redirectedSession)) = [End ''uh-oh'']"
  using callback_rejected_before_exchange
          [of "sampleQuery\<lparr>error := JStr ''access_denied''\<rparr>" redirectedSession
              sampleConfig "providerEnv tokensOk profileOk"]
        callback_rejected_before_exchange
          [of "sampleQuery\<lparr>state := JStr ''0.75''\<rparr>" redirectedSession
              sampleConfig "providerEnv tokensOk profileOk"]
  by (simp add: sampleQuery_def redirectedSession_def emptySession_def)

text \<open>
  Claim C9. With no \<open>error\<close> and no \<open>state\<close> in the query and no state stored in the
  session, the comparison \<open>undefined !== undefined\<close> is false: the check passes, and
  the handler logs the code and posts the token request, whose body carries the
  request's code.
\<close>

theorem callback_absent_state_accepted:
  assumes "error q = JUndefined" and "state q = JUndefined" and "redditState s = JUndefined"
  shows "strictEq (state q) (redditState s)
       \<and> take 2 (snd (callback cfg e q s)) = [LogInfo (code q), Fetch (tokenRequest cfg e (code q))]
       \<and> url (tokenRequest cfg e (code q)) = ''https://www.reddit.com/api/v1/access_token''
       \<and> body (tokenRequest cfg e (code q)) =
           Some (''grant_type=authorization_code&redirect_uri=''
                 @ encodeURIComponent (reddit_redirectURI cfg)
                 @ ''&code='' @ encodeURIComponent (toString (code q)))"
proof -
  have ok: "\<not> truthy (error q)" "strictEq (state q) (redditState s)"
    using assms by simp_all
  have calls: "take 2 (snd (callback cfg e q s)) = [LogInfo (code q), Fetch (tokenRequest cfg e (code q))]"
  proof (cases "snd (fetchRedditTokens cfg e (code q))")
    case (Inl tokenError)
    with ok show ?thesis by (simp add: callback_token_failure)
  next
    case (Inr tokens)
    show ?thesis
    proof (cases "snd (fetchRedditUserInfo e (accessToken tokens))")
      case (Inl userInfoError)
      with ok Inr show ?thesis by (simp add: callback_profile_failed)
    next
      case (Inr info)
      with ok \<open>snd (fetchRedditTokens cfg e (code q)) = Inr tokens\<close> show ?thesis
        by (simp add: callback_success)
    qed
  qed
  have req: "body (tokenRequest cfg e (code q)) =
           Some (''grant_type=authorization_code&redirect_uri=''
                 @ encodeURIComponent (reddit_redirectURI cfg)
                 @ ''&code='' @ encodeURIComponent (toString (code q)))"
    by (simp add: tokenRequest_def formData_def encodeURIComponent_def encodeChar_def
        uriUnreserved_def)
  have "url (tokenRequest cfg e (code q)) = ''https://www.reddit.com/api/v1/access_token''"
    by (simp add: tokenRequest_def)
  with ok calls req show ?thesis by simp
qed


theorem callback_absent_state_accepted_witness:
  "error (sampleQuery\<lparr>state := JUndefined\<rparr>) = JUndefined
   \<and> state (sampleQuery\<lparr>state := JUndefined\<rparr>) = JUndefined
   \<and> redditState emptySession = JUndefined
   \<and> take 2 (snd (callback sampleConfig (providerEnv tokensOk profileOk)
                    (sampleQuery\<lparr>state := JUndefined\<rparr>) emptySession))
       = [LogInfo (JStr ''c0de''),
          Fetch (tokenRequest sampleConfig (providerEnv tokensOk profileOk) (JStr ''c0de''))]
   \<and> body (tokenRequest sampleConfig (providerEnv tokensOk profileOk) (JStr ''c0de''))
       = Some ''grant_type=authorization_code&redirect_uri=https%3A%2F%2Fbot.example%2Fauth%2Freddit%2Fcallback&code=c0de''"
  using callback_absent_state_accepted
          [of "sampleQuery\<lparr>state := JUndefined\<rparr>" emptySession
              sampleConfig "providerEnv tokensOk profileOk"]
  by (simp add: sampleQuery_def emptySession_def sampleConfig_def encodeURIComponent_def
      encodeChar_def uriUnreserved_def percent_def hexDigit_def)

text \<open>
  Claim C2 says that a failed profile fetch leaves the session unchanged. The handler
  stores the access token, the refresh token and the expiry right after the token
  exchange, before it fetches the profile. With a provider that answers the token
  request and whose profile endpoint is down, the session that had no tokens has them
  afterwards.
\<close>

theorem callback_profile_failure_changes_session:
  "\<not> truthy (error sampleQuery)
   \<and> strictEq (state sampleQuery) (redditState redirectedSession)
   \<and> snd (fetchRedditTokens sampleConfig (providerEnv tokensOk profileDown) (code sampleQuery))
       = Inr \<lparr>accessToken = JStr ''tok'', refreshToken = JStr ''ref'', tokenType = JStr ''bearer'',
              scope = JStr ''identity'', expiresIn = JNum 3600\<rparr>
   \<and> snd (fetchRedditUserInfo (providerEnv tokensOk profileDown) (JStr ''tok''))
       = Inl (Error ''Reddit gave non-200 status when fetching user info: 503'')
   \<and> fst (callback sampleConfig (providerEnv tokensOk profileDown) sampleQuery redirectedSession)
       = redirectedSession\<lparr>redditAccessToken := JStr ''tok'',
                            redditRefreshToken := JStr ''ref'',
                            redditTokenExpiresAt := Some (DateMs 1600003600000)\<rparr>
   \<and> fst (callback sampleConfig (providerEnv tokensOk profileDown) sampleQuery redirectedSession)
       \<noteq> redirectedSession"
proof -
  have q: "\<not> truthy (error sampleQuery)" "strictEq (state sampleQuery) (redditState redirectedSession)"
    by (simp_all add: sampleQuery_def redirectedSession_def emptySession_def)
  have t: "snd (fetchRedditTokens sampleConfig (providerEnv tokensOk profileDown) (code sampleQuery))
       = Inr \<lparr>accessToken = JStr ''tok'', refreshToken = JStr ''ref'', tokenType = JStr ''bearer'',
              scope = JStr ''identity'', expiresIn = JNum 3600\<rparr>"
    by (rule sample_tokens)
  have u: "snd (fetchRedditUserInfo (providerEnv tokensOk profileDown) (JStr ''tok''))
       = Inl (Error ''Reddit gave non-200 status when fetching user info: 503'')"
    by (rule sample_profile_down)
  have c: "fst (callback sampleConfig (providerEnv tokensOk profileDown) sampleQuery redirectedSession)
       = redirectedSession\<lparr>redditAccessToken := JStr ''tok'',
                            redditRefreshToken := JStr ''ref'',
                            redditTokenExpiresAt := Some (DateMs 1600003600000)\<rparr>"
    using callback_profile_failed [OF q t] u by (simp add: providerEnv_def)
  have "redditAccessToken (fst (callback sampleConfig (providerEnv tokensOk profileDown)
            sampleQuery redirectedSession)) \<noteq> redditAccessToken redirectedSession"
    unfolding c by (simp add: redirectedSession_def emptySession_def)
  then have "fst (callback sampleConfig (providerEnv tokensOk profileDown) sampleQuery redirectedSession)
       \<noteq> redirectedSession"
    by auto
  with q t u c show ?thesis by simp
qed

text \<open>
  Claim C2, amended. When the callback reaches the profile fetch and the fetch fails,
  the handler ends the response with the message about the account details and makes no
  redirect; the profile in the session is the one from before the request, and nothing
  else of the session has changed but the three fields written after the token
  exchange: access token, refresh token and expiry.
\<close>

theorem callback_profile_failure:
  assumes "\<not> truthy (error q)" and "strictEq (state q) (redditState s)"
    and "snd (fetchRedditTokens cfg e (code q)) = Inr tokens"
    and "snd (fetchRedditUserInfo e (accessToken tokens)) = Inl userInfoError"
  shows "fst (callback cfg e q s) =
           s\<lparr>redditAccessToken := accessToken tokens,
             redditRefreshToken := refreshToken tokens,
             redditTokenExpiresAt :=
               Some (newDate (jsAdd (Num (now e))
                                    (jsMul (toNumber e (expiresIn tokens)) (Num 1000))))\<rparr>
       \<and> redditUserInfo (fst (callback cfg e q s)) = redditUserInfo s
       \<and> responseOf (snd (callback cfg e q s)) =
           [End ''Error fetching your account details. Please try again. Contact a developer if the error persists.'']"
  using callback_profile_failed [OF assms] by (simp add: responseOf_simps)

theorem callback_profile_failure_witness:
  "\<not> truthy (error sampleQuery)
   \<and> strictEq (state sampleQuery) (redditState redirectedSession)
   \<and> snd (fetchRedditTokens sampleConfig (providerEnv tokensOk profileDown) (code sampleQuery))
       = Inr \<lparr>accessToken = JStr ''tok'', refreshToken = JStr ''ref'', tokenType = JStr ''bearer'',
              scope = JStr ''identity'', expiresIn = JNum 3600\<rparr>
   \<and> snd (fetchRedditUserInfo (providerEnv tokensOk profileDown) (JStr ''tok''))
       = Inl (Error ''Reddit gave non-200 status when fetching user info: 503'')
   \<and> fst (callback sampleConfig (providerEnv tokensOk profileDown) sampleQuery redirectedSession)
       = redirectedSession\<lparr>redditAccessToken := JStr ''tok'',
                            redditRefreshToken := JStr ''ref'',
                            redditTokenExpiresAt := Some (DateMs 1600003600000)\<rparr>
   \<and> redditUserInfo (fst (callback sampleConfig (providerEnv tokensOk profileDown)
                             sampleQuery redirectedSession)) = None
   \<and> responseOf (snd (callback sampleConfig (providerEnv tokensOk profileDown)
                         sampleQuery redirectedSession)) =
       [End ''Error fetching your account details. Please try again. Contact a developer if the error persists.'']"
proof -
  have q: "\<not> truthy (error sampleQuery)" "strictEq (state sampleQuery) (redditState redirectedSession)"
    by (simp_all add: sampleQuery_def redirectedSession_def emptySession_def)
  have t: "snd (fetchRedditTokens sampleConfig (providerEnv tokensOk profileDown) (code sampleQuery))
       = Inr \<lparr>accessToken = JStr ''tok'', refreshToken = JStr ''ref'', tokenType = JStr ''bearer'',
              scope = JStr ''identity'', expiresIn = JNum 3600\<rparr>"
    by (rule sample_tokens)
  have u: "snd (fetchRedditUserInfo (providerEnv tokensOk profileDown) (JStr ''tok''))
       = Inl (Error ''Reddit gave non-200 status when fetching user info: 503'')"
    by (rule sample_profile_down)
  from q t u
    callback_profile_failure
      [of sampleQuery redirectedSession sampleConfig "providerEnv tokensOk profileDown"
          "\<lparr>accessToken = JStr ''tok'', refreshToken = JStr ''ref'', tokenType = JStr ''bearer'',
              scope = JStr ''identity'', expiresIn = JNum 3600\<rparr>"
          "Error ''Reddit gave non-200 status when fetching user info: 503''"]
  show ?thesis
    by (simp add: providerEnv_def redirectedSession_def emptySession_def)
qed

text \<open>
  Claim C4 says that the token exchange fails exactly when the status is not a success
  or the body contains an \<open>error\<close> field. A body answered with status 200 whose
  \<open>error\<close> field is the empty string is taken as a success, since the field is tested
  for truthiness; and an answer with status 200 whose body is not JSON makes the
  exchange fail although the body has no \<open>error\<close> field.
\<close>

theorem fetchRedditTokens_not_iff:
  "fetch (providerEnv tokensEmptyError profileOk)
         (tokenRequest sampleConfig (providerEnv tokensEmptyError profileOk) (JStr ''c0de''))
     = Inr \<lparr>status = 200,
            json = Inr (JObj [(''error'', JStr []), (''access_token'', JStr ''tok''),
                              (''expires_in'', JNum 3600)])\<rparr>
   \<and> hasField (JObj [(''error'', JStr []), (''access_token'', JStr ''tok''),
                      (''expires_in'', JNum 3600)]) ''error''
   \<and> snd (fetchRedditTokens sampleConfig (providerEnv tokensEmptyError profileOk) (JStr ''c0de''))
     = Inr \<lparr>accessToken = JStr ''tok'', refreshToken = JUndefined, tokenType = JUndefined,
            scope = JUndefined, expiresIn = JNum 3600\<rparr>
   \<and> fetch (providerEnv tokensNotJson profileOk)
         (tokenRequest sampleConfig (providerEnv tokensNotJson profileOk) (JStr ''c0de''))
     = Inr \<lparr>status = 200, json = Inl (External ''body is not JSON'')\<rparr>
   \<and> snd (fetchRedditTokens sampleConfig (providerEnv tokensNotJson profileOk) (JStr ''c0de''))
     = Inl (External ''body is not JSON'')"
  by (simp add: fetchRedditTokens_result providerEnv_token)
     (simp add: tokensEmptyError_def tokensNotJson_def)

text \<open>
  Claim C4, amended. For every code, the token exchange fails if and only if the
  request itself fails, the status is not 200, the body cannot be read as JSON or is
  \<open>null\<close>, or the body's \<open>error\<close> field is truthy. On success it returns the token
  set mapped from the wire fields \<open>access_token\<close>, \<open>refresh_token\<close>, \<open>token_type\<close>,
  \<open>scope\<close> and \<open>expires_in\<close>. When the exchange fails for the code of a callback, the
  callback leaves the session as it was and makes no redirect.
\<close>

theorem fetchRedditTokens_outcome:
  "(isl (snd (fetchRedditTokens cfg e c)) \<longleftrightarrow>
      (case fetch e (tokenRequest cfg e c) of
         Inl rejected \<Rightarrow> True
       | Inr response \<Rightarrow>
           status response \<noteq> 200 \<or>
           (case json response of
              Inl rejected \<Rightarrow> True
            | Inr data \<Rightarrow> nullish data \<or> truthy (propOf data ''error''))))
   \<and> (\<forall>response data.
         fetch e (tokenRequest cfg e c) = Inr response \<and> status response = 200
         \<and> json response = Inr data \<and> \<not> nullish data \<and> \<not> truthy (propOf data ''error'') \<longrightarrow>
         snd (fetchRedditTokens cfg e c) =
           Inr \<lparr>accessToken = propOf data ''access_token'',
                refreshToken = propOf data ''refresh_token'',
                tokenType = propOf data ''token_type'',
                scope = propOf data ''scope'',
                expiresIn = propOf data ''expires_in''\<rparr>)
   \<and> (isl (snd (fetchRedditTokens cfg e (code q))) \<longrightarrow>
         fst (callback cfg e q s) = s
         \<and> (\<forall>l. Redirect l \<notin> set (snd (callback cfg e q s))))"
proof (intro conjI allI impI)
  show "isl (snd (fetchRedditTokens cfg e c)) \<longleftrightarrow>
      (case fetch e (tokenRequest cfg e c) of
         Inl rejected \<Rightarrow> True
       | Inr response \<Rightarrow>
           status response \<noteq> 200 \<or>
           (case json response of
              Inl rejected \<Rightarrow> True
            | Inr data \<Rightarrow> nullish data \<or> truthy (propOf data ''error'')))"
    by (simp add: fetchRedditTokens_result split: sum.splits)
next
  fix response data
  assume "fetch e (tokenRequest cfg e c) = Inr response \<and> status response = 200
         \<and> json response = Inr data \<and> \<not> nullish data \<and> \<not> truthy (propOf data ''error'')"
  then show "snd (fetchRedditTokens cfg e c) =
           Inr \<lparr>accessToken = propOf data ''access_token'',
                refreshToken = propOf data ''refresh_token'',
                tokenType = propOf data ''token_type'',
                scope = propOf data ''scope'',
                expiresIn = propOf data ''expires_in''\<rparr>"
    by (simp add: fetchRedditTokens_result)
next
  assume failed: "isl (snd (fetchRedditTokens cfg e (code q)))"
  then obtain tokenError where tokenError: "snd (fetchRedditTokens cfg e (code q)) = Inl tokenError"
    by (cases "snd (fetchRedditTokens cfg e (code q))") simp_all
  consider "truthy (error q)"
    | "\<not> truthy (error q)" "\<not> strictEq (state q) (redditState s)"
    | "\<not> truthy (error q)" "strictEq (state q) (redditState s)"
    by blast
  then have "fst (callback cfg e q s) = s \<and> (\<forall>l. Redirect l \<notin> set (snd (callback cfg e q s)))"
  proof cases
    case 1
    then show ?thesis by (simp add: callback_error)
  next
    case 2
    then show ?thesis by (simp add: callback_mismatch)
  next
    case 3
    with tokenError show ?thesis by (simp add: callback_token_failure)
  qed
  then show "fst (callback cfg e q s) = s"
    and "\<And>l. Redirect l \<notin> set (snd (callback cfg e q s))"
    by simp_all
qed

theorem fetchRedditTokens_outcome_witness:
  "isl (snd (fetchRedditTokens sampleConfig (providerEnv tokensNotJson profileOk) (code sampleQuery)))
   \<and> fst (callback sampleConfig (providerEnv tokensNotJson profileOk) sampleQuery redirectedSession)
       = redirectedSession
   \<and> fetch (providerEnv tokensOk profileOk)
        (tokenRequest sampleConfig (providerEnv tokensOk profileOk) (JStr ''c0de''))
       = tokensOk
   \<and> \<not> isl (snd (fetchRedditTokens sampleConfig (providerEnv tokensOk profileOk) (JStr ''c0de'')))
   \<and> snd (fetchRedditTokens sampleConfig (providerEnv tokensOk profileOk) (JStr ''c0de''))
       = Inr \<lparr>accessToken = JStr ''tok'', refreshToken = JStr ''ref'', tokenType = JStr ''bearer'',
              scope = JStr ''identity'', expiresIn = JNum 3600\<rparr>"
  using fetchRedditTokens_outcome
          [of sampleConfig "providerEnv tokensNotJson profileOk" "code sampleQuery"
              sampleQuery redirectedSession]
        fetchRedditTokens_outcome
          [of sampleConfig "providerEnv tokensOk profileOk" "JStr ''c0de''"
              sampleQuery redirectedSession]
  by (simp add: providerEnv_token) (simp add: tokensOk_def tokensNotJson_def)

text \<open>
  Claim C8. After a successful token exchange whose \<open>expiresIn\<close> stands for the number
  \<open>n\<close> of seconds, the expiry stored in the session is the date made from the clock
  reading plus \<open>n * 1000\<close> milliseconds, whether or not the profile fetch that follows
  succeeds. Within the range of dates this is the timestamp exactly \<open>n\<close> seconds after
  the clock reading; for 3600 it is 3600 seconds after it. The clock is read after the
  exchange has returned.
\<close>

theorem callback_expiry_absolute:
  assumes "\<not> truthy (error q)" and "strictEq (state q) (redditState s)"
    and "snd (fetchRedditTokens cfg e (code q)) = Inr tokens"
    and "toNumber e (expiresIn tokens) = Num n"
  shows "redditTokenExpiresAt (fst (callback cfg e q s)) = Some (newDate (Num (now e + n * 1000)))
       \<and> (\<bar>now e + n * 1000\<bar> \<le> 8640000000000000 \<longrightarrow>
            redditTokenExpiresAt (fst (callback cfg e q s)) = Some (DateMs (now e + n * 1000)))
       \<and> (n = 3600 \<and> \<bar>now e + 3600000\<bar> \<le> 8640000000000000 \<longrightarrow>
            redditTokenExpiresAt (fst (callback cfg e q s)) = Some (DateMs (now e + 3600000)))"
proof -
  have stored: "redditTokenExpiresAt (fst (callback cfg e q s)) =
      Some (newDate (Num (now e + n * 1000)))"
  proof (cases "snd (fetchRedditUserInfo e (accessToken tokens))")
    case (Inl userInfoError)
    with assms show ?thesis by (simp add: callback_profile_failed)
  next
    case (Inr info)
    with assms show ?thesis by (simp add: callback_success)
  qed
  then show ?thesis by simp
qed

theorem callback_expiry_absolute_witness:
  "\<not> truthy (error sampleQuery)
   \<and> strictEq (state sampleQuery) (redditState redirectedSession)
   \<and> snd (fetchRedditTokens sampleConfig (providerEnv tokensOk profileOk) (code sampleQuery))
       = Inr \<lparr>accessToken = JStr ''tok'', refreshToken = JStr ''ref'', tokenType = JStr ''bearer'',
              scope = JStr ''identity'', expiresIn = JNum 3600\<rparr>
   \<and> toNumber (providerEnv tokensOk profileOk) (JNum 3600) = Num 3600
   \<and> now (providerEnv tokensOk profileOk) = 1600000000000
   \<and> redditTokenExpiresAt
        (fst (callback sampleConfig (providerEnv tokensOk profileOk) sampleQuery redirectedSession))
       = Some (DateMs 1600003600000)"
proof -
  have q: "\<not> truthy (error sampleQuery)" "strictEq (state sampleQuery) (redditState redirectedSession)"
    by (simp_all add: sampleQuery_def redirectedSession_def emptySession_def)
  have t: "snd (fetchRedditTokens sampleConfig (providerEnv tokensOk profileOk) (code sampleQuery))
       = Inr \<lparr>accessToken = JStr ''tok'', refreshToken = JStr ''ref'', tokenType = JStr ''bearer'',
              scope = JStr ''identity'', expiresIn = JNum 3600\<rparr>"
    by (rule sample_tokens)
  have n: "now (providerEnv tokensOk profileOk) = 1600000000000"
    by (simp add: providerEnv_def)
  have c: "toNumber (providerEnv tokensOk profileOk)
             (expiresIn \<lparr>accessToken = JStr ''tok'', refreshToken = JStr ''ref'',
                         tokenType = JStr ''bearer'', scope = JStr ''identity'',
                         expiresIn = JNum 3600\<rparr>) = Num 3600"
    by simp
  from callback_expiry_absolute [OF q t c] q t n show ?thesis by simp
qed

section \<open>Properties of the authorization URI\<close>

lemma below_16_cases:
  assumes "(m::nat) < 16"
  shows "m = 0 \<or> m = 1 \<or> m = 2 \<or> m = 3 \<or> m = 4 \<or> m = 5 \<or> m = 6 \<or> m = 7 \<or> m = 8
       \<or> m = 9 \<or> m = 10 \<or> m = 11 \<or> m = 12 \<or> m = 13 \<or> m = 14 \<or> m = 15"
  using assms by arith

lemma hexVal_hexDigit: "hexVal (hexDigit m) = m mod 16"
proof -
  have "m mod 16 < 16" by simp
  then have "hexVal (''0123456789ABCDEF'' ! (m mod 16)) = m mod 16"
    using below_16_cases [of "m mod 16"] by (auto simp add: hexVal_def)
  then show ?thesis by (simp add: hexDigit_def)
qed

lemma hexDigit_unreserved: "uriUnreserved (hexDigit m)"
proof -
  have "m mod 16 < 16" by simp
  then have "uriUnreserved (''0123456789ABCDEF'' ! (m mod 16))"
    using below_16_cases [of "m mod 16"] by (auto simp add: uriUnreserved_def)
  then show ?thesis by (simp add: hexDigit_def)
qed

lemma percent_not_unreserved: "\<not> uriUnreserved CHR ''%''"
  by (simp add: uriUnreserved_def)

lemma percent_value:
  "b < 256 \<Longrightarrow> 16 * hexVal (hexDigit (b div 16)) + hexVal (hexDigit b) = b"
  by (simp add: hexVal_hexDigit)

lemma encodeChar_chars:
  "x \<in> set (encodeChar c) \<Longrightarrow> uriUnreserved x \<or> x = CHR ''%''"
  by (auto simp add: encodeChar_def percent_def Let_def hexDigit_unreserved split: if_splits)

lemma encodeURIComponent_chars:
  "x \<in> set (encodeURIComponent s) \<Longrightarrow> uriUnreserved x \<or> x = CHR ''%''"
  by (auto simp add: encodeURIComponent_def dest: encodeChar_chars)

lemma decodeHead_encodeChar:
  "decodeHead (encodeChar c @ rest) = (c, length (encodeChar c))"
proof -
  define n where "n = (of_char c :: nat)"
  have n256: "n < 256" by (simp add: n_def)
  have same: "char_of n = c" by (simp add: n_def)
  consider (plain) "uriUnreserved c"
    | (one) "\<not> uriUnreserved c" "n < 128"
    | (two) "\<not> uriUnreserved c" "\<not> n < 128"
    by blast
  then show ?thesis
  proof cases
    case plain
    then have "c \<noteq> CHR ''%''" using percent_not_unreserved by auto
    with plain show ?thesis by (simp add: encodeChar_def decodeHead_def)
  next
    case one
    then have enc: "encodeChar c = percent n" by (simp add: encodeChar_def n_def Let_def)
    have "16 * hexVal (hexDigit (n div 16)) + hexVal (hexDigit n) = n"
      using n256 by (rule percent_value)
    with one same show ?thesis
      by (simp add: enc decodeHead_def percent_def)
  next
    case two
    then have enc: "encodeChar c = percent (192 + n div 64) @ percent (128 + n mod 64)"
      by (simp add: encodeChar_def n_def Let_def)
    have hi: "16 * hexVal (hexDigit ((192 + n div 64) div 16)) + hexVal (hexDigit (192 + n div 64))
        = 192 + n div 64"
      using n256 by (intro percent_value) simp
    have lo: "16 * hexVal (hexDigit ((128 + n mod 64) div 16)) + hexVal (hexDigit (128 + n mod 64))
        = 128 + n mod 64"
      by (intro percent_value) simp
    have "n div 64 * 64 + n mod 64 = n" by simp
    with hi lo same show ?thesis
      by (simp add: enc decodeHead_def percent_def)
  qed
qed

lemma encodeChar_prefix_free:
  assumes "encodeChar a @ xs = encodeChar b @ ys"
  shows "a = b \<and> xs = ys"
proof -
  have "decodeHead (encodeChar a @ xs) = decodeHead (encodeChar b @ ys)"
    using assms by simp
  then have "a = b" by (simp add: decodeHead_encodeChar)
  with assms show ?thesis by simp
qed

lemma encodeChar_nonempty: "encodeChar c \<noteq> []"
  by (simp add: encodeChar_def percent_def Let_def)

lemma encodeURIComponent_inj:
  "encodeURIComponent s = encodeURIComponent t \<Longrightarrow> s = t"
proof (induction s arbitrary: t)
  case Nil
  then show ?case
    by (cases t) (simp_all add: encodeURIComponent_def encodeChar_nonempty)
next
  case (Cons a s)
  show ?case
  proof (cases t)
    case Nil
    with Cons.prems show ?thesis
      by (simp add: encodeURIComponent_def encodeChar_nonempty)
  next
    case (Cons b t')
    with Cons.prems have "encodeChar a @ encodeURIComponent s = encodeChar b @ encodeURIComponent t'"
      by (simp add: encodeURIComponent_def)
    then have "a = b \<and> encodeURIComponent s = encodeURIComponent t'"
      by (rule encodeChar_prefix_free)
    with Cons.IH Cons show ?thesis by simp
  qed
qed

text \<open>
  Claim C7. \<open>authURI\<close> is a function of the configuration and the state alone: it reads
  and writes nothing else. Its result is the fixed base, with the parameters
  \<open>client_id\<close>, \<open>response_type\<close>, \<open>redirect_uri\<close>, \<open>scope\<close> and \<open>duration\<close> as the
  configuration gives them, followed by \<open>&state=\<close> and the URI-encoded state. The
  encoded state consists of unreserved characters and percent escapes only, so it adds
  no parameter of its own, and different states give different URIs.
\<close>

theorem authURI_contains_state_and_parameters:
  "authURI cfg st =
     ''https://old.reddit.com/api/v1/authorize''
     @ ''?client_id='' @ reddit_clientID cfg
     @ ''&response_type=code''
     @ ''&redirect_uri='' @ encodeURIComponent (web_host cfg @ ''/auth/reddit/callback'')
     @ ''&scope=identity''
     @ ''&duration=permanent''
     @ ''&state='' @ encodeURIComponent st
   \<and> prefix (redditAuthURIBase cfg) (authURI cfg st)
   \<and> suffix (''&state='' @ encodeURIComponent st) (authURI cfg st)
   \<and> (\<forall>c \<in> set (encodeURIComponent st). uriUnreserved c \<or> c = CHR ''%'')
   \<and> (\<forall>st'. authURI cfg st' = authURI cfg st \<longrightarrow> st' = st)"
proof (intro conjI ballI allI impI)
  show "authURI cfg st =
     ''https://old.reddit.com/api/v1/authorize''
     @ ''?client_id='' @ reddit_clientID cfg
     @ ''&response_type=code''
     @ ''&redirect_uri='' @ encodeURIComponent (web_host cfg @ ''/auth/reddit/callback'')
     @ ''&scope=identity''
     @ ''&duration=permanent''
     @ ''&state='' @ encodeURIComponent st"
    by (simp add: authURI_def redditAuthURIBase_def redditRedirectURI_def)
next
  show "prefix (redditAuthURIBase cfg) (authURI cfg st)"
    by (simp add: authURI_def)
next
  show "suffix (''&state='' @ encodeURIComponent st) (authURI cfg st)"
    unfolding authURI_def by (rule suffix_appendI) simp
next
  fix c
  assume "c \<in> set (encodeURIComponent st)"
  then show "uriUnreserved c \<or> c = CHR ''%''"
    by (rule encodeURIComponent_chars)
next
  fix st'
  assume "authURI cfg st' = authURI cfg st"
  then have "encodeURIComponent st' = encodeURIComponent st"
    by (simp add: authURI_def)
  then show "st' = st"
    by (rule encodeURIComponent_inj)
qed

theorem authURI_contains_state_and_parameters_witness:
  "authURI sampleConfig ''0.5 &x'' =
     ''https://old.reddit.com/api/v1/authorize?client_id=abc&response_type=code&redirect_uri=https%3A%2F%2Fbot.example%2Fauth%2Freddit%2Fcallback&scope=identity&duration=permanent&state=0.5%20%26x''
   \<and> encodeURIComponent ''0.5 &x'' = ''0.5%20%26x''
   \<and> CHR ''%'' \<in> set (encodeURIComponent ''0.5 &x'')"
proof -
  have st: "encodeURIComponent ''0.5 &x'' = ''0.5%20%26x''"
    by (simp add: encodeURIComponent_def encodeChar_def uriUnreserved_def percent_def hexDigit_def)
  have redirect: "encodeURIComponent (web_host sampleConfig @ ''/auth/reddit/callback'')
      = ''https%3A%2F%2Fbot.example%2Fauth%2Freddit%2Fcallback''"
    by (simp add: sampleConfig_def encodeURIComponent_def encodeChar_def uriUnreserved_def
        percent_def hexDigit_def)
  have "authURI sampleConfig ''0.5 &x'' =
     ''https://old.reddit.com/api/v1/authorize''
     @ ''?client_id='' @ reddit_clientID sampleConfig
     @ ''&response_type=code''
     @ ''&redirect_uri='' @ encodeURIComponent (web_host sampleConfig @ ''/auth/reddit/callback'')
     @ ''&scope=identity''
     @ ''&duration=permanent''
     @ ''&state='' @ encodeURIComponent ''0.5 &x''"
    using authURI_contains_state_and_parameters [of sampleConfig "''0.5 &x''"]
    by (rule conjunct1)
  then have "authURI sampleConfig ''0.5 &x'' =
     ''https://old.reddit.com/api/v1/authorize?client_id=abc&response_type=code&redirect_uri=https%3A%2F%2Fbot.example%2Fauth%2Freddit%2Fcallback&scope=identity&duration=permanent&state=0.5%20%26x''"
    unfolding st redirect by (simp add: sampleConfig_def)
  with st show ?thesis by simp
qed

end
